theory Spec2Isabelle
  imports Main "HOL-Library.Multiset"
begin

section \<open>Data model of the deck service (main.go)\<close>

text \<open>
  The structs of main.go as records. \<open>DrawnCard\<close> has a field \<open>Code\<close> of its own in the
  source; a record field is a constant, so that one is called \<open>DrawnCode\<close> here.
  \<open>Request.ReplyCh\<close> is the channel the reply is sent on: in the model the reply is the
  value the operation returns, so the field is left out.
\<close>

record Card =
  Code :: string
  Rank :: string
  Suit :: string
  Image :: string

record DrawnCard =
  DrawnCode :: string
  Time :: string

record Deck =
  ID :: string
  Cards :: "Card list"
  Remaining :: int

record Request =
  Type :: string
  DeckID :: string
  Params :: "string list"

text \<open>
  Every failure of the source is a message: \<open>fmt.Errorf\<close> on the reply channel of the
  draw and shuffle workers, \<open>http.Error\<close> in the handlers. One constructor per message:

  \<^item> \<open>InvalidNumberOfCards\<close>: "Invalid number of cards" (drawCards)
  \<^item> \<open>DeckNotFound\<close>: "Deck not found" (every operation that loads a row)
  \<^item> \<open>DeckEmpty\<close>: "Deck empty" (drawCards)
  \<^item> \<open>ErrorUpdatingDeck\<close>: "Error updating deck" (drawCards, shuffleDeck)
  \<^item> \<open>TooManyDecks\<close>: "Too many Deckes" (createDeck)
  \<^item> \<open>ErrorCreatingDeck\<close>: "Error creating deck" (createDeck)
  \<^item> \<open>ErrorAddingCards\<close>: "Error adding cards" (addCards)
  \<^item> \<open>InvalidCount\<close>: "Invalid count" (showDrawnCards, showUpcomingCards)
  \<^item> \<open>IndexOutOfRange\<close>: the run-time panic of \<open>req.Params[0]\<close> on an empty slice
\<close>

datatype error =
    InvalidNumberOfCards
  | DeckNotFound
  | DeckEmpty
  | ErrorUpdatingDeck
  | TooManyDecks
  | ErrorCreatingDeck
  | ErrorAddingCards
  | InvalidCount
  | IndexOutOfRange

record Response =
  Deck :: Deck
  Drawn :: "DrawnCard list"
  Error :: "error option"

text \<open>
  A row of the table \<open>decks\<close> (createTable): the key \<open>id\<close> and the three text columns
  \<open>cards\<close>, \<open>piged\<close> (the drawn pile) and \<open>upcoming\<close>. The columns hold the JSON
  encoding of a slice; the program is the only writer, every value it writes comes from
  \<open>json.Marshal\<close> of a slice of that type (or is the literal "[]"), so a column is modelled
  as the list it decodes to and the "Error parsing" and "Error marshalling" branches have
  no input. The nil slice and the empty slice are both \<open>[]\<close>. What is decoded from a
  column is well-formed UTF-8 and is written back as it is; the strings that come from a
  request (addCards) are stored as \<open>jsonString\<close> gives them.
\<close>

record row =
  cards :: "Card list"
  piged :: "DrawnCard list"
  upcoming :: "Card list"

type_synonym db = "string \<rightharpoonup> row"

text \<open>The zero values Go gives the fields a composite literal leaves out.\<close>

definition zeroDeck :: Deck where
  "zeroDeck = \<lparr>ID = [], Cards = [], Remaining = 0\<rparr>"

definition errorResponse :: "error \<Rightarrow> Response" where
  "errorResponse e = \<lparr>Deck = zeroDeck, Drawn = [], Error = Some e\<rparr>"

section \<open>Library functions the handlers call\<close>

text \<open>
  \<open>strconv.Atoi\<close> on a 64-bit platform: an optional sign, then at least one decimal digit
  and nothing else; a value outside the range of \<open>int\<close> is an error as well.
\<close>

definition is_digit :: "char \<Rightarrow> bool" where
  "is_digit c = (48 \<le> (of_char c :: nat) \<and> (of_char c :: nat) \<le> 57)"

definition digit_val :: "char \<Rightarrow> nat" where
  "digit_val c = of_char c - 48"

fun digits_loop :: "nat \<Rightarrow> string \<Rightarrow> nat option" where
  "digits_loop n [] = Some n"
| "digits_loop n (c # cs) =
     (if is_digit c then digits_loop (n * 10 + digit_val c) cs else None)"

definition in_int_range :: "int \<Rightarrow> int option" where
  "in_int_range v = (if - (2 ^ 63) \<le> v \<and> v < 2 ^ 63 then Some v else None)"

definition Atoi :: "string \<Rightarrow> int option" where
  "Atoi s =
     (case s of
        [] \<Rightarrow> None
      | c # cs \<Rightarrow>
          (let ds = (if c = CHR ''-'' \<or> c = CHR ''+'' then cs else s) in
           if ds = [] then None
           else (case digits_loop 0 ds of
                   None \<Rightarrow> None
                 | Some n \<Rightarrow> in_int_range (if c = CHR ''-'' then - int n else int n))))"

text \<open>
  \<open>strings.Split(s, sep)\<close> for a separator of one byte, the only use in main.go ("/" and
  ","): the pieces between the separators, empty pieces included, so the result is never
  empty. \<open>cur\<close> is the piece being read.
\<close>

fun split_loop :: "char \<Rightarrow> string \<Rightarrow> string \<Rightarrow> string list" where
  "split_loop sep cur [] = [cur]"
| "split_loop sep cur (c # cs) =
     (if c = sep then cur # split_loop sep [] cs else split_loop sep (cur @ [c]) cs)"

definition Split :: "string \<Rightarrow> char \<Rightarrow> string list" where
  "Split s sep = split_loop sep [] s"

text \<open>
  \<open>rand.Shuffle(n, swap)\<close>: for \<open>i\<close> from \<open>n - 1\<close> down to 1 it draws \<open>j\<close> in
  \<open>0..i\<close> and calls \<open>swap(i, j)\<close>. The generator, seeded from the clock, is the
  parameter \<open>pick\<close>: \<open>pick i\<close> is the number drawn at step \<open>i\<close>, reduced into \<open>0..i\<close>.
  \<open>swap\<close> is the closure of shuffleDeck, exchanging two elements of the slice.
\<close>

definition swap :: "'a list \<Rightarrow> nat \<Rightarrow> nat \<Rightarrow> 'a list" where
  "swap xs i j = xs[i := xs ! j, j := xs ! i]"

fun shuffle_loop :: "(nat \<Rightarrow> nat) \<Rightarrow> nat \<Rightarrow> 'a list \<Rightarrow> 'a list" where
  "shuffle_loop pick 0 xs = xs"
| "shuffle_loop pick (Suc i) xs =
     shuffle_loop pick i (swap xs (Suc i) (pick (Suc i) mod Suc (Suc i)))"

definition Shuffle :: "(nat \<Rightarrow> nat) \<Rightarrow> 'a list \<Rightarrow> 'a list" where
  "Shuffle pick xs = shuffle_loop pick (length xs - 1) xs"

text \<open>
  What \<open>json.Unmarshal\<close> reads back from \<open>json.Marshal\<close> of a Go string. The encoder
  copies every well-formed UTF-8 sequence (escaped or not, the decoder gives the same
  bytes back) and writes the escape of U+FFFD for each byte at which \<open>utf8.DecodeRuneInString\<close>
  reports an error of width 1; the decoder turns that escape into the three bytes of
  U+FFFD. \<open>rune_size\<close> is the width of the well-formed sequence at the head of the
  string, 0 when there is none; \<open>json_loop k\<close> copies the \<open>k\<close> bytes left of a sequence
  already accepted.
\<close>

definition byte_in :: "nat \<Rightarrow> nat \<Rightarrow> char \<Rightarrow> bool" where
  "byte_in lo hi c = (lo \<le> (of_char c :: nat) \<and> (of_char c :: nat) \<le> hi)"

definition rune_size :: "string \<Rightarrow> nat" where
  "rune_size s =
     (case s of
        [] \<Rightarrow> 0
      | b0 # rest \<Rightarrow>
          if byte_in 0 127 b0 then 1
          else if byte_in 194 223 b0
          then (case rest of
                  b1 # _ \<Rightarrow> if byte_in 128 191 b1 then 2 else 0
                | _ \<Rightarrow> 0)
          else if byte_in 224 239 b0
          then (case rest of
                  b1 # b2 # _ \<Rightarrow>
                    if byte_in (if byte_in 224 224 b0 then 160 else 128)
                               (if byte_in 237 237 b0 then 159 else 191) b1
                       \<and> byte_in 128 191 b2
                    then 3 else 0
                | _ \<Rightarrow> 0)
          else if byte_in 240 244 b0
          then (case rest of
                  b1 # b2 # b3 # _ \<Rightarrow>
                    if byte_in (if byte_in 240 240 b0 then 144 else 128)
                               (if byte_in 244 244 b0 then 143 else 191) b1
                       \<and> byte_in 128 191 b2 \<and> byte_in 128 191 b3
                    then 4 else 0
                | _ \<Rightarrow> 0)
          else 0)"

definition replacement :: string where
  "replacement = [CHR 0xEF, CHR 0xBF, CHR 0xBD]"

fun json_loop :: "nat \<Rightarrow> string \<Rightarrow> string" where
  "json_loop k [] = []"
| "json_loop (Suc k) (c # cs) = c # json_loop k cs"
| "json_loop 0 (c # cs) =
     (if rune_size (c # cs) = 0 then replacement @ json_loop 0 cs
      else c # json_loop (rune_size (c # cs) - 1) cs)"

definition jsonString :: "string \<Rightarrow> string" where
  "jsonString s = json_loop 0 s"

definition jsonCard :: "Card \<Rightarrow> Card" where
  "jsonCard c = \<lparr>Code = jsonString (Code c), Rank = jsonString (Rank c),
                 Suit = jsonString (Suit c), Image = jsonString (Image c)\<rparr>"

section \<open>generateCards\<close>

text \<open>The slice literals \<open>ranks\<close> and \<open>suits\<close>, in the order of the source.\<close>

definition ranks :: "string list" where
  "ranks = [''2'', ''3'', ''4'', ''5'', ''6''] @ [''7'', ''8'', ''9'', ''10'']
           @ [''j'', ''q'', ''k'', ''a'']"

definition suits :: "string list" where
  "suits = [''h'', ''d'', ''c'', ''s'']"

definition mkCard :: "string \<Rightarrow> string \<Rightarrow> Card" where
  "mkCard rank suit =
     \<lparr>Code = rank @ suit, Rank = rank, Suit = suit,
      Image = ''/static/'' @ (rank @ suit) @ ''.svg''\<rparr>"

definition joker :: Card where
  "joker = \<lparr>Code = ''joker'', Rank = ''joker'', Suit = [], Image = ''/static/joker.svg''\<rparr>"

text \<open>The three nested loops, innermost first; \<open>acc\<close> is the slice \<open>cards\<close>.\<close>

fun ranks_loop :: "string \<Rightarrow> string list \<Rightarrow> Card list \<Rightarrow> Card list" where
  "ranks_loop suit [] acc = acc"
| "ranks_loop suit (rank # rs) acc = ranks_loop suit rs (acc @ [mkCard rank suit])"

fun suits_loop :: "string list \<Rightarrow> Card list \<Rightarrow> Card list" where
  "suits_loop [] acc = acc"
| "suits_loop (suit # ss) acc = suits_loop ss (ranks_loop suit ranks acc)"

definition add_jokers :: "bool \<Rightarrow> Card list \<Rightarrow> Card list" where
  "add_jokers jokers acc = (if jokers then (acc @ [joker]) @ [joker] else acc)"

text \<open>
  The outer loop \<open>for i := 0; i < nbrPaquet; i++\<close>; its body does not read \<open>i\<close>, so the
  loop is counted by the number of rounds left, \<open>nat nbrPaquet\<close> (none when
  \<open>nbrPaquet \<le> 0\<close>).
\<close>

fun packs_loop :: "nat \<Rightarrow> bool \<Rightarrow> Card list \<Rightarrow> Card list" where
  "packs_loop 0 jokers acc = acc"
| "packs_loop (Suc k) jokers acc = packs_loop k jokers (add_jokers jokers (suits_loop suits acc))"

definition generateCards :: "int \<Rightarrow> bool \<Rightarrow> Card list" where
  "generateCards nbrPaquet jokers = packs_loop (nat nbrPaquet) jokers []"

text \<open>
  The specification's description of one pack, for comparison: the four suits in order,
  thirteen ranks each, then two jokers when they are enabled.
\<close>

definition pack_spec :: "bool \<Rightarrow> Card list" where
  "pack_spec jokers =
     concat (map (\<lambda>suit. map (\<lambda>rank. mkCard rank suit) ranks) suits)
     @ (if jokers then [joker, joker] else [])"

section \<open>parseCards\<close>

fun parse_loop :: "string list \<Rightarrow> Card list \<Rightarrow> Card list" where
  "parse_loop [] acc = acc"
| "parse_loop (code # rest) acc =
     parse_loop rest (acc @ [\<lparr>Code = code, Rank = [], Suit = [], Image = []\<rparr>])"

definition parseCards :: "string \<Rightarrow> Card list" where
  "parseCards cardsStr = parse_loop (Split cardsStr CHR '','') []"

text \<open>Joining pieces with a separator, the inverse of \<open>Split\<close>.\<close>

fun join :: "char \<Rightarrow> string list \<Rightarrow> string" where
  "join sep [] = []"
| "join sep [x] = x"
| "join sep (x # y # ys) = x @ sep # join sep (y # ys)"

section \<open>The store and the operations\<close>

text \<open>
  What the outside world supplies to one call of an operation: whether the statement
  given to \<open>db.Exec\<close> fails in the database engine, the formatted value of the
  \<open>k\<close>-th call of \<open>time.Now()\<close>, the numbers drawn by the random generator, and the
  identifier \<open>uuid.New()\<close> returns. A \<open>SELECT\<close> of a row that exists is taken to succeed:
  \<open>row.Scan\<close> fails when the row is absent.
\<close>

record env =
  execFails :: bool
  now :: "nat \<Rightarrow> string"
  rnd :: "nat \<Rightarrow> nat"
  newUUID :: string

subsection \<open>createDeck\<close>

text \<open>
  \<open>params\<close> is the request path after "/deck/new/". The \<open>INSERT\<close> fails when the engine
  fails or when the primary key is already in the table.
\<close>

definition createDeck :: "env \<Rightarrow> db \<Rightarrow> string \<Rightarrow> (error + Deck) \<times> db" where
  "createDeck e d params =
     (let parts = Split params CHR ''/'';
          nbrPaquet = (case parts of
                         [] \<Rightarrow> 1
                       | p # _ \<Rightarrow> (case Atoi p of None \<Rightarrow> 1 | Some n \<Rightarrow> n));
          jokers = (case parts of
                      _ # j # _ \<Rightarrow> j = ''true''
                    | _ \<Rightarrow> False)
      in if nbrPaquet > 10 then (Inl TooManyDecks, d)
         else (let deckID = newUUID e;
                   cs = generateCards nbrPaquet jokers
               in if execFails e then (Inl ErrorCreatingDeck, d)
                  else (case d deckID of
                          Some _ \<Rightarrow> (Inl ErrorCreatingDeck, d)
                        | None \<Rightarrow>
                            (Inr \<lparr>ID = deckID, Cards = cs, Remaining = int (length cs)\<rparr>,
                             d(deckID \<mapsto> \<lparr>cards = cs, piged = [], upcoming = cs\<rparr>)))))"

subsection \<open>drawCards\<close>

text \<open>The loop that builds \<open>drawnWithTime\<close>; \<open>k\<close> counts the calls of \<open>time.Now()\<close>.\<close>

fun stamp_loop :: "(nat \<Rightarrow> string) \<Rightarrow> nat \<Rightarrow> Card list \<Rightarrow> DrawnCard list \<Rightarrow> DrawnCard list" where
  "stamp_loop clock k [] acc = acc"
| "stamp_loop clock k (c # cs) acc =
     stamp_loop clock (Suc k) cs (acc @ [\<lparr>DrawnCode = Code c, Time = clock k\<rparr>])"

text \<open>
  The body of drawCards, statement by statement. \<open>drawnWithTime\<close> is built as in the
  source and, as in the source, read by nothing afterwards: the only statement that
  writes the table is \<open>UPDATE decks SET upcoming = ? WHERE id = ?\<close>, and the reply is
  \<open>Response{Deck: response}\<close>, whose \<open>Drawn\<close> is the zero value.
\<close>

definition drawCards :: "env \<Rightarrow> db \<Rightarrow> Request \<Rightarrow> Response \<times> db" where
  "drawCards e d req =
     (case Params req of
        [] \<Rightarrow> (errorResponse IndexOutOfRange, d)
      | p # _ \<Rightarrow>
          (case Atoi p of
             None \<Rightarrow> (errorResponse InvalidNumberOfCards, d)
           | Some n \<Rightarrow>
               if n < 1 then (errorResponse InvalidNumberOfCards, d)
               else (case d (DeckID req) of
                       None \<Rightarrow> (errorResponse DeckNotFound, d)
                     | Some r \<Rightarrow>
                         (let upcomingCards = upcoming r in
                          if length upcomingCards = 0 then (errorResponse DeckEmpty, d)
                          else (let nbrCarte = (if n > int (length upcomingCards)
                                                then int (length upcomingCards) else n);
                                    drawnCards = take (nat nbrCarte) upcomingCards;
                                    upcomingCards' = drop (nat nbrCarte) upcomingCards;
                                    drawnWithTime = stamp_loop (now e) 0 drawnCards []
                                in if execFails e then (errorResponse ErrorUpdatingDeck, d)
                                   else (\<lparr>Deck = \<lparr>ID = DeckID req, Cards = drawnCards,
                                                  Remaining = int (length upcomingCards')\<rparr>,
                                          Drawn = [], Error = None\<rparr>,
                                         d(DeckID req \<mapsto> r\<lparr>upcoming := upcomingCards'\<rparr>)))))))"

subsection \<open>shuffleDeck\<close>

definition shuffleDeck :: "env \<Rightarrow> db \<Rightarrow> Request \<Rightarrow> Response \<times> db" where
  "shuffleDeck e d req =
     (case d (DeckID req) of
        None \<Rightarrow> (errorResponse DeckNotFound, d)
      | Some r \<Rightarrow>
          (let upcomingCards = Shuffle (rnd e) (upcoming r)
           in if execFails e then (errorResponse ErrorUpdatingDeck, d)
              else (\<lparr>Deck = \<lparr>ID = DeckID req, Cards = upcomingCards,
                             Remaining = int (length upcomingCards)\<rparr>,
                     Drawn = [], Error = None\<rparr>,
                    d(DeckID req \<mapsto> r\<lparr>upcoming := upcomingCards\<rparr>))))"

subsection \<open>addCards\<close>

text \<open>
  The reply is built from the slices in memory; the column receives
  \<open>json.Marshal(upcomingCards)\<close>, in which the cards read from the table are unchanged
  and the new ones are as \<open>jsonCard\<close> gives them.
\<close>

definition addCards :: "env \<Rightarrow> db \<Rightarrow> string \<Rightarrow> string \<Rightarrow> (error + Deck) \<times> db" where
  "addCards e d deckID cardsStr =
     (case d deckID of
        None \<Rightarrow> (Inl DeckNotFound, d)
      | Some r \<Rightarrow>
          (let existingCards = cards r;
               newCards = parseCards cardsStr;
               upcomingCards = upcoming r @ newCards
           in if execFails e then (Inl ErrorAddingCards, d)
              else (let allCards = existingCards @ upcomingCards
                    in (Inr \<lparr>ID = deckID, Cards = allCards,
                             Remaining = int (length upcomingCards)\<rparr>,
                        d(deckID \<mapsto> r\<lparr>upcoming := upcoming r @ map jsonCard newCards\<rparr>)))))"

subsection \<open>showDrawnCards and showUpcomingCards\<close>

text \<open>
  Neither handler has a statement that writes the table; both return the store they were
  given. \<open>xs[len(xs)-count:]\<close> is \<open>drop\<close>, \<open>xs[:count]\<close> is \<open>take\<close>; the guard before
  them keeps both in range.
\<close>

definition showDrawnCards :: "db \<Rightarrow> string \<Rightarrow> string \<Rightarrow> (error + DrawnCard list) \<times> db" where
  "showDrawnCards d deckID countStr =
     (case d deckID of
        None \<Rightarrow> (Inl DeckNotFound, d)
      | Some r \<Rightarrow>
          (let drawnCards = piged r in
           case Atoi countStr of
             None \<Rightarrow> (Inl InvalidCount, d)
           | Some cnt \<Rightarrow>
               if cnt < 0 \<or> cnt > int (length drawnCards) then (Inl InvalidCount, d)
               else if cnt > 0
                    then (Inr (drop (length drawnCards - nat cnt) drawnCards), d)
                    else (Inr drawnCards, d)))"

definition showUpcomingCards :: "db \<Rightarrow> string \<Rightarrow> string \<Rightarrow> (error + Card list) \<times> db" where
  "showUpcomingCards d deckID countStr =
     (case d deckID of
        None \<Rightarrow> (Inl DeckNotFound, d)
      | Some r \<Rightarrow>
          (let upcomingCards = upcoming r in
           case Atoi countStr of
             None \<Rightarrow> (Inl InvalidCount, d)
           | Some cnt \<Rightarrow>
               if cnt < 0 \<or> cnt > int (length upcomingCards) then (Inl InvalidCount, d)
               else if cnt > 0
                    then (Inr (take (nat cnt) upcomingCards), d)
                    else (Inr upcomingCards, d)))"

subsection \<open>handleRequests\<close>

text \<open>
  The single goroutine that receives from \<open>requestChannel\<close> and runs one request to its
  end before it receives the next; drawCards and shuffleDeck moreover hold the mutex
  \<open>mu\<close> from entry to return. The requests are therefore run one after the other, in the
  order the channel delivers them: the queue is a list, each request with the environment
  of its run. A request of another type gets no reply.
\<close>

fun handleRequests :: "db \<Rightarrow> (env \<times> Request) list \<Rightarrow> Response list \<times> db" where
  "handleRequests d [] = ([], d)"
| "handleRequests d ((e, req) # rest) =
     (if Type req = ''draw''
      then (let (resp, d') = drawCards e d req;
                (resps, d'') = handleRequests d' rest
            in (resp # resps, d''))
      else if Type req = ''shuffle''
      then (let (resp, d') = shuffleDeck e d req;
                (resps, d'') = handleRequests d' rest
            in (resp # resps, d''))
      else handleRequests d rest)"

text \<open>
  The requests handleDeckRequests builds for \<open>GET /deck/{id}/draw/{count}\<close> and for
  \<open>GET /deck/{id}/shuffle\<close>; the second leaves \<open>Params\<close> nil.
\<close>

definition shuffleReq :: "string \<Rightarrow> Request" where
  "shuffleReq deckID = \<lparr>Type = ''shuffle'', DeckID = deckID, Params = []\<rparr>"

definition drawReq :: "string \<Rightarrow> string \<Rightarrow> Request" where
  "drawReq deckID countStr = \<lparr>Type = ''draw'', DeckID = deckID, Params = [countStr]\<rparr>"

section \<open>Vocabulary of the statements and concrete inputs\<close>

text \<open>
  "The count is a positive integer", as drawCards reads it: the text is one that
  \<open>strconv.Atoi\<close> accepts (a decimal number in the range of \<open>int\<close>) and its value is at
  least 1. This is the negation of the guard \<open>err != nil || nbrCarte < 1\<close>.
\<close>

definition isPositiveInt :: "string \<Rightarrow> bool" where
  "isPositiveInt s = (case Atoi s of None \<Rightarrow> False | Some n \<Rightarrow> 1 \<le> n)"

text \<open>
  Inputs for the concrete runs below: an environment in which the database engine works,
  the clock reads one instant, the generator draws 0 every time and the next identifier
  is "deck-1"; the empty table; a table with one deck of two cards and a non-empty drawn
  pile; the table after \<open>/deck/new/1/false\<close>; the table after \<open>/deck/new/0\<close> followed
  by \<open>/deck/deck-1/add?cards=as,ks\<close>; a table with one deck whose upcoming pile is empty.
\<close>

definition env0 :: env where
  "env0 = \<lparr>execFails = False, now = (\<lambda>k. ''2024-05-01T10:00:00Z''), rnd = (\<lambda>i. 0),
           newUUID = ''deck-1''\<rparr>"

definition emptyDB :: db where
  "emptyDB = Map.empty"

definition twoCardsRow :: row where
  "twoCardsRow =
     \<lparr>cards = [mkCard ''a'' ''s'', mkCard ''k'' ''s''],
      piged = [\<lparr>DrawnCode = ''2h'', Time = ''2024-05-01T09:00:00Z''\<rparr>,
               \<lparr>DrawnCode = ''3h'', Time = ''2024-05-01T09:00:01Z''\<rparr>,
               \<lparr>DrawnCode = ''4h'', Time = ''2024-05-01T09:00:02Z''\<rparr>],
      upcoming = [mkCard ''a'' ''s'', mkCard ''k'' ''s'']\<rparr>"

definition twoCards :: db where
  "twoCards = emptyDB(''deck-1'' \<mapsto> twoCardsRow)"

definition onePack :: db where
  "onePack = snd (createDeck env0 emptyDB ''1/false'')"

definition twoAdded :: db where
  "twoAdded = snd (addCards env0 (snd (createDeck env0 emptyDB ''0'')) ''deck-1'' ''as,ks'')"

definition exhausted :: db where
  "exhausted = emptyDB(''deck-1'' \<mapsto> \<lparr>cards = [mkCard ''a'' ''s''], piged = [], upcoming = []\<rparr>)"

section \<open>Facts about the library models and the loops\<close>

lemma Atoi_examples:
  "Atoi ''5'' = Some 5" "Atoi ''0'' = Some 0" "Atoi ''1'' = Some 1" "Atoi ''2'' = Some 2"
  "Atoi ''-3'' = Some (-3)" "Atoi ''11'' = Some 11" "Atoi ''abc'' = None" "Atoi [] = None"
  by (simp_all add: Atoi_def is_digit_def digit_val_def in_int_range_def)

lemma jsonString_examples:
  "jsonString [] = []" "jsonString ''as'' = ''as''" "jsonString ''ks'' = ''ks''"
  "jsonString [CHR 0xFF] = [CHR 0xEF, CHR 0xBF, CHR 0xBD]"
  "jsonString [CHR ''a'', CHR 0xC3, CHR 0xA9, CHR 0xC3]
     = [CHR ''a'', CHR 0xC3, CHR 0xA9, CHR 0xEF, CHR 0xBF, CHR 0xBD]"
  by (simp_all add: jsonString_def rune_size_def byte_in_def replacement_def eval_nat_numeral)

lemma jsonString_ascii: "\<forall>c \<in> set s. (of_char c :: nat) < 128 \<Longrightarrow> jsonString s = s"
  unfolding jsonString_def by (induction s) (simp_all add: rune_size_def byte_in_def)

subsection \<open>Split and join\<close>

lemma split_loop_not_Nil: "split_loop sep cur s \<noteq> []"
  by (induction s arbitrary: cur) simp_all

lemma join_Cons: "ys \<noteq> [] \<Longrightarrow> join sep (x # ys) = x @ sep # join sep ys"
  by (cases ys) simp_all

lemma join_split_loop: "join sep (split_loop sep cur s) = cur @ s"
  by (induction s arbitrary: cur) (simp_all add: join_Cons split_loop_not_Nil)

lemma length_split_loop: "length (split_loop sep cur s) = Suc (count_list s sep)"
  by (induction s arbitrary: cur) simp_all

lemma split_loop_no_sep:
  "sep \<notin> set cur \<Longrightarrow> \<forall>seg \<in> set (split_loop sep cur s). sep \<notin> set seg"
proof (induction s arbitrary: cur)
  case Nil
  then show ?case by simp
next
  case (Cons c cs)
  show ?case
  proof (cases "c = sep")
    case True
    with Cons.IH [of "[]"] Cons.prems show ?thesis by simp
  next
    case False
    with Cons.IH [of "cur @ [c]"] Cons.prems show ?thesis by simp
  qed
qed

lemma join_Split: "join sep (Split s sep) = s"
  by (simp add: Split_def join_split_loop)

lemma length_Split: "length (Split s sep) = Suc (count_list s sep)"
  by (simp add: Split_def length_split_loop)

lemma Split_no_sep: "seg \<in> set (Split s sep) \<Longrightarrow> sep \<notin> set seg"
  using split_loop_no_sep [of sep "[]" s] by (simp add: Split_def)

lemma Split_Nil: "Split [] sep = [[]]"
  by (simp add: Split_def)

subsection \<open>Shuffle\<close>

lemma length_swap: "length (swap xs i j) = length xs"
  by (simp add: swap_def)

lemma mset_swap_list: "i < length xs \<Longrightarrow> j < length xs \<Longrightarrow> mset (swap xs i j) = mset xs"
  by (simp add: swap_def mset_swap)

lemma length_shuffle_loop: "length (shuffle_loop pick i xs) = length xs"
  by (induction i arbitrary: xs) (simp_all add: length_swap)

text \<open>Every step exchanges two positions inside the slice, so the loop permutes it.\<close>

lemma mset_shuffle_loop: "i < length xs \<Longrightarrow> mset (shuffle_loop pick i xs) = mset xs"
proof (induction i arbitrary: xs)
  case 0
  then show ?case by simp
next
  case (Suc i)
  let ?j = "pick (Suc i) mod Suc (Suc i)"
  have j: "?j < length xs"
    using Suc.prems mod_less_divisor [of "Suc (Suc i)" "pick (Suc i)"] by linarith
  have "mset (shuffle_loop pick i (swap xs (Suc i) ?j)) = mset (swap xs (Suc i) ?j)"
    using Suc.prems by (intro Suc.IH) (simp add: length_swap)
  also have "\<dots> = mset xs"
    using Suc.prems j by (rule mset_swap_list)
  finally show ?case by simp
qed

lemma mset_Shuffle: "mset (Shuffle pick xs) = mset xs"
proof (cases xs)
  case Nil
  then show ?thesis by (simp add: Shuffle_def)
next
  case (Cons x ys)
  then show ?thesis by (simp add: Shuffle_def mset_shuffle_loop)
qed

lemma length_Shuffle: "length (Shuffle pick xs) = length xs"
  by (simp add: Shuffle_def length_shuffle_loop)

subsection \<open>The loops of generateCards and parseCards\<close>

lemma ranks_loop_eq: "ranks_loop suit rs acc = acc @ map (\<lambda>rank. mkCard rank suit) rs"
  by (induction rs arbitrary: acc) simp_all

lemma suits_loop_eq:
  "suits_loop ss acc = acc @ concat (map (\<lambda>suit. map (\<lambda>rank. mkCard rank suit) ranks) ss)"
  by (induction ss arbitrary: acc) (simp_all add: ranks_loop_eq)

lemma pack_body_eq: "add_jokers jokers (suits_loop suits acc) = acc @ pack_spec jokers"
  by (simp add: add_jokers_def suits_loop_eq pack_spec_def)

lemma packs_loop_eq: "packs_loop k jokers acc = acc @ concat (replicate k (pack_spec jokers))"
  by (induction k arbitrary: acc) (simp_all add: pack_body_eq)

lemma generateCards_eq:
  "generateCards nbrPaquet jokers = concat (replicate (nat nbrPaquet) (pack_spec jokers))"
  by (simp add: generateCards_def packs_loop_eq)

lemma length_pack_spec: "length (pack_spec jokers) = (if jokers then 54 else 52)"
  by (simp add: pack_spec_def ranks_def suits_def)

lemma length_concat_replicate: "length (concat (replicate k xs)) = k * length xs"
  by (induction k) simp_all

lemma length_generateCards:
  "length (generateCards nbrPaquet jokers) = nat nbrPaquet * (if jokers then 54 else 52)"
  by (simp add: generateCards_eq length_concat_replicate length_pack_spec)

lemma set_concat_replicate: "set (concat (replicate k xs)) \<subseteq> set xs"
  by (induction k) simp_all

lemma pack_spec_fields:
  "c \<in> set (pack_spec jokers) \<Longrightarrow>
     Code c = Rank c @ Suit c \<and> Image c = ''/static/'' @ Code c @ ''.svg''"
  by (auto simp: pack_spec_def mkCard_def joker_def)

lemma pack_spec_ranks:
  "map Rank (pack_spec jokers) =
     concat (replicate 4 ([''2'', ''3'', ''4'', ''5'', ''6''] @ [''7'', ''8'', ''9'', ''10'']
                          @ [''j'', ''q'', ''k'', ''a'']))
     @ (if jokers then [''joker'', ''joker''] else [])"
  by (simp add: pack_spec_def ranks_def suits_def mkCard_def joker_def eval_nat_numeral)

lemma pack_spec_suits:
  "map Suit (pack_spec jokers) =
     replicate 13 ''h'' @ replicate 13 ''d'' @ replicate 13 ''c'' @ replicate 13 ''s''
     @ (if jokers then [[], []] else [])"
  by (simp add: pack_spec_def ranks_def suits_def mkCard_def joker_def eval_nat_numeral)

lemma generateCards_nonpositive: "nbrPaquet \<le> 0 \<Longrightarrow> generateCards nbrPaquet jokers = []"
  by (simp add: generateCards_def)

lemma generateCards_1: "generateCards 1 jokers = pack_spec jokers"
  by (simp add: generateCards_eq)

lemma take_5_generateCards_1:
  "take 5 (generateCards 1 False) =
     [mkCard ''2'' ''h'', mkCard ''3'' ''h'', mkCard ''4'' ''h'', mkCard ''5'' ''h'',
      mkCard ''6'' ''h'']"
  by (simp add: generateCards_1 pack_spec_def suits_def ranks_def)

lemma generateCards_1_not_Nil: "generateCards 1 jokers \<noteq> []"
  using length_generateCards [of 1 jokers] by (cases jokers) auto

lemma parse_loop_eq:
  "parse_loop xs acc = acc @ map (\<lambda>code. \<lparr>Code = code, Rank = [], Suit = [], Image = []\<rparr>) xs"
  by (induction xs arbitrary: acc) simp_all

lemma parseCards_eq:
  "parseCards s =
     map (\<lambda>code. \<lparr>Code = code, Rank = [], Suit = [], Image = []\<rparr>) (Split s CHR '','')"
  by (simp add: parseCards_def parse_loop_eq)

subsection \<open>The concrete tables\<close>

lemma onePack_eq:
  "onePack = emptyDB(''deck-1'' \<mapsto>
     \<lparr>cards = generateCards 1 False, piged = [], upcoming = generateCards 1 False\<rparr>)"
  by (simp add: onePack_def createDeck_def env0_def emptyDB_def Split_def Atoi_examples Let_def)

lemma twoAdded_eq:
  "twoAdded = emptyDB(''deck-1'' \<mapsto>
     \<lparr>cards = [], piged = [],
      upcoming = [\<lparr>Code = ''as'', Rank = [], Suit = [], Image = []\<rparr>,
                  \<lparr>Code = ''ks'', Rank = [], Suit = [], Image = []\<rparr>]\<rparr>)"
  by (simp add: twoAdded_def createDeck_def addCards_def parseCards_def env0_def emptyDB_def
      Split_def Atoi_examples Let_def generateCards_def jsonCard_def jsonString_examples)

subsection \<open>drawCards by cases\<close>

text \<open>
  The guards of drawCards in the order the source tests them, and the one write it makes.
\<close>

lemma drawCards_cases:
  assumes "Params req = countStr # ps"
  shows "drawCards e d req =
    (if \<not> isPositiveInt countStr then (errorResponse InvalidNumberOfCards, d)
     else case d (DeckID req) of
            None \<Rightarrow> (errorResponse DeckNotFound, d)
          | Some r \<Rightarrow>
              if upcoming r = [] then (errorResponse DeckEmpty, d)
              else if execFails e then (errorResponse ErrorUpdatingDeck, d)
              else (\<lparr>Deck = \<lparr>ID = DeckID req,
                             Cards = take (nat (min (the (Atoi countStr))
                                                    (int (length (upcoming r))))) (upcoming r),
                             Remaining = int (length (upcoming r))
                                          - min (the (Atoi countStr)) (int (length (upcoming r)))\<rparr>,
                     Drawn = [], Error = None\<rparr>,
                    d(DeckID req \<mapsto>
                       r\<lparr>upcoming := drop (nat (min (the (Atoi countStr))
                                                   (int (length (upcoming r))))) (upcoming r)\<rparr>)))"
  using assms
  by (auto simp: drawCards_def isPositiveInt_def Let_def min_def split: option.splits)

text \<open>
  No run of drawCards changes the columns \<open>cards\<close> and \<open>piged\<close> of any row: the drawn
  pile in the table is the one createDeck wrote.
\<close>

lemma drawCards_keeps_piged:
  assumes "d deckID = Some r"
  shows "\<exists>r'. snd (drawCards e d req) deckID = Some r' \<and> piged r' = piged r \<and> cards r' = cards r"
  using assms
  by (auto simp: drawCards_def Let_def split: list.splits option.splits)

section \<open>The claims\<close>

subsection \<open>C1: what a draw writes\<close>

text \<open>
  Claim C1. A draw of a positive count on an existing, non-empty deck removes the first
  cards of the upcoming pile, appends them, stamped with the draw time, to the drawn pile,
  and writes both piles to the table, so that the stored drawn pile grows by the cards
  removed.

  On the table left by \<open>/deck/new/1/false\<close>, \<open>/deck/deck-1/draw/1\<close> answers with the card
  "2h" and 51 remaining, and the stored upcoming pile has lost its first card; the stamped
  entry for "2h" is built by the loop, but the stored drawn pile is still empty, where the
  claim has the one entry for "2h".
\<close>

theorem drawCards_leaves_drawn_pile_unwritten:
  "drawCards env0 onePack (drawReq ''deck-1'' ''1'') =
     (\<lparr>Deck = \<lparr>ID = ''deck-1'', Cards = [mkCard ''2'' ''h''], Remaining = 51\<rparr>,
       Drawn = [], Error = None\<rparr>,
      onePack(''deck-1'' \<mapsto>
        \<lparr>cards = generateCards 1 False, piged = [],
         upcoming = drop 1 (generateCards 1 False)\<rparr>))
   \<and> stamp_loop (now env0) 0 [mkCard ''2'' ''h''] [] =
       [\<lparr>DrawnCode = ''2h'', Time = ''2024-05-01T10:00:00Z''\<rparr>]"
proof -
  have t: "take (Suc 0) (generateCards 1 False) = [mkCard ''2'' ''h'']"
    using arg_cong [OF take_5_generateCards_1, of "take 1"] by simp
  show ?thesis
    by (simp add: drawCards_def drawReq_def onePack_eq Atoi_examples Let_def emptyDB_def
        length_generateCards generateCards_1_not_Nil t env0_def mkCard_def)
qed

subsection \<open>C2: the accounting of the two piles\<close>

text \<open>
  Claim C2. After any sequence of draw, add-cards and shuffle operations on a deck, the
  length of the stored drawn pile plus the length of the stored upcoming pile is the
  number of cards ever added to the deck.

  On the table left by \<open>/deck/new/1/false\<close> (52 cards added), after
  \<open>/deck/deck-1/draw/5\<close> the stored piles hold 0 and 47 cards.
\<close>

theorem draw_breaks_accounting:
  "snd (drawCards env0 onePack (drawReq ''deck-1'' ''5'')) ''deck-1'' =
      Some \<lparr>cards = generateCards 1 False, piged = [],
            upcoming = drop 5 (generateCards 1 False)\<rparr>
   \<and> length ([] :: DrawnCard list) + length (drop 5 (generateCards 1 False)) = 47
   \<and> length (generateCards 1 False) = 52"
  by (simp add: drawCards_def drawReq_def onePack_eq Atoi_examples Let_def emptyDB_def
        length_generateCards generateCards_1_not_Nil env0_def)

subsection \<open>C3: drawing more cards than remain\<close>

text \<open>
  Claim C3, as written: a draw whose count is a positive integer greater than the number
  of cards in the non-empty upcoming pile succeeds, returns all the remaining upcoming
  cards and leaves the upcoming pile empty, remaining 0.

  The count reaches drawCards as text and is read by \<open>strconv.Atoi\<close>, which refuses a
  number outside the range of \<open>int\<close>: a draw of 9223372036854775808 (2 to the power 63)
  on a deck of two upcoming cards fails with "Invalid number of cards" and leaves the
  table as it was.
\<close>

theorem drawCards_overdraw_counterexample:
  "drawCards env0 twoCards (drawReq ''deck-1'' ''9223372036854775808'')
     = (errorResponse InvalidNumberOfCards, twoCards)"
  by (simp add: drawCards_def drawReq_def Atoi_def is_digit_def digit_val_def in_int_range_def)

text \<open>
  Claim C3, amended: a draw whose count is an integer that \<open>strconv.Atoi\<close> accepts (in the
  range of \<open>int\<close>) and that is greater than the number of cards in the non-empty upcoming
  pile succeeds, returns all the remaining upcoming cards and leaves the upcoming pile
  empty, remaining 0. (The reply is the one of a run in which the database engine
  executes the update.)
\<close>

theorem drawCards_overdraw:
  assumes "Params req = countStr # ps"
    and "Atoi countStr = Some n"
    and "int (length (upcoming r)) < n"
    and "d (DeckID req) = Some r"
    and "upcoming r \<noteq> []"
    and "\<not> execFails e"
  shows "drawCards e d req =
           (\<lparr>Deck = \<lparr>ID = DeckID req, Cards = upcoming r, Remaining = 0\<rparr>,
             Drawn = [], Error = None\<rparr>,
            d(DeckID req \<mapsto> r\<lparr>upcoming := []\<rparr>))"
proof -
  have "1 \<le> n" using assms(3) by linarith
  then show ?thesis
    using assms by (simp add: drawCards_def Let_def)
qed

theorem drawCards_overdraw_witness:
  "drawCards env0 twoCards (drawReq ''deck-1'' ''5'') =
     (\<lparr>Deck = \<lparr>ID = ''deck-1'', Cards = [mkCard ''a'' ''s'', mkCard ''k'' ''s''],
              Remaining = 0\<rparr>,
       Drawn = [], Error = None\<rparr>,
      twoCards(''deck-1'' \<mapsto> twoCardsRow\<lparr>upcoming := []\<rparr>))"
  using drawCards_overdraw [of "drawReq ''deck-1'' ''5''" "''5''" "[]" 5 twoCardsRow twoCards env0]
  by (simp add: drawReq_def twoCards_def twoCardsRow_def env0_def Atoi_examples)

subsection \<open>C4: the failures of a draw\<close>

text \<open>
  Claim C4, as written: a draw fails with InvalidArgument ("Invalid number of cards")
  exactly when the count is not a positive integer, with NotFound ("Deck not found")
  exactly when no deck has the identifier, and with EmptyDeck ("Deck empty") exactly when
  the deck exists and its upcoming pile is empty; no drawn cards are returned then.

  The source tests the count before it loads the deck, so a draw of "0" on an identifier
  that no deck has fails with "Invalid number of cards", not with "Deck not found".
\<close>

theorem drawCards_errors_counterexample:
  "\<not> (Error (fst (drawCards env0 emptyDB (drawReq ''no-such-deck'' ''0''))) = Some DeckNotFound
        \<longleftrightarrow> emptyDB ''no-such-deck'' = None)"
  by (simp add: drawCards_def drawReq_def emptyDB_def errorResponse_def Atoi_examples)

text \<open>
  Claim C4, amended: a draw fails with "Invalid number of cards" exactly when the count is
  not a positive integer that \<open>strconv.Atoi\<close> accepts; with "Deck not found" exactly when
  the count is such a positive integer and no deck has the identifier; with "Deck empty"
  exactly when the count is such a positive integer, the deck exists and its upcoming
  pile is empty. In every failure the reply carries no cards and no drawn cards, and the
  table is unchanged.
\<close>

theorem drawCards_errors:
  assumes "Params req = countStr # ps"
  shows "(Error (fst (drawCards e d req)) = Some InvalidNumberOfCards
            \<longleftrightarrow> \<not> isPositiveInt countStr)
       \<and> (Error (fst (drawCards e d req)) = Some DeckNotFound
            \<longleftrightarrow> isPositiveInt countStr \<and> d (DeckID req) = None)
       \<and> (Error (fst (drawCards e d req)) = Some DeckEmpty
            \<longleftrightarrow> isPositiveInt countStr \<and> (\<exists>r. d (DeckID req) = Some r \<and> upcoming r = []))
       \<and> (Error (fst (drawCards e d req)) \<noteq> None
            \<longrightarrow> Cards (Deck (fst (drawCards e d req))) = []
                \<and> Drawn (fst (drawCards e d req)) = []
                \<and> snd (drawCards e d req) = d)"
  by (auto simp: drawCards_cases [OF assms] errorResponse_def zeroDeck_def split: option.splits)

theorem drawCards_errors_witness:
  "Error (fst (drawCards env0 twoCards (drawReq ''deck-1'' ''abc''))) = Some InvalidNumberOfCards
   \<and> Error (fst (drawCards env0 emptyDB (drawReq ''no-such-deck'' ''0''))) = Some InvalidNumberOfCards
   \<and> Error (fst (drawCards env0 emptyDB (drawReq ''no-such-deck'' ''5''))) = Some DeckNotFound
   \<and> Error (fst (drawCards env0 exhausted (drawReq ''deck-1'' ''5''))) = Some DeckEmpty
   \<and> Cards (Deck (fst (drawCards env0 exhausted (drawReq ''deck-1'' ''5'')))) = []
   \<and> snd (drawCards env0 exhausted (drawReq ''deck-1'' ''5'')) = exhausted"
  using drawCards_errors [of "drawReq ''deck-1'' ''abc''" "''abc''" "[]" env0 twoCards]
        drawCards_errors [of "drawReq ''no-such-deck'' ''0''" "''0''" "[]" env0 emptyDB]
        drawCards_errors [of "drawReq ''no-such-deck'' ''5''" "''5''" "[]" env0 emptyDB]
        drawCards_errors [of "drawReq ''deck-1'' ''5''" "''5''" "[]" env0 exhausted]
  by (simp add: drawReq_def isPositiveInt_def Atoi_examples emptyDB_def exhausted_def)

subsection \<open>C5: shuffle permutes the upcoming pile\<close>

text \<open>
  Claim C5. Shuffle on an existing deck produces a permutation of the upcoming pile: the
  multiset of cards, and so of codes, is the one before, the length is unchanged, and the
  drawn pile is unchanged. This holds of the stored row whatever the generator draws; when
  the update is executed the reply carries the stored order.
\<close>

theorem shuffleDeck_permutes:
  assumes "d (DeckID req) = Some r"
  shows "\<exists>r'. snd (shuffleDeck e d req) (DeckID req) = Some r'
            \<and> mset (upcoming r') = mset (upcoming r)
            \<and> mset (map Code (upcoming r')) = mset (map Code (upcoming r))
            \<and> length (upcoming r') = length (upcoming r)
            \<and> piged r' = piged r
            \<and> cards r' = cards r
            \<and> (\<not> execFails e \<longrightarrow>
                  fst (shuffleDeck e d req) =
                    \<lparr>Deck = \<lparr>ID = DeckID req, Cards = upcoming r',
                             Remaining = int (length (upcoming r))\<rparr>,
                     Drawn = [], Error = None\<rparr>)"
proof (cases "execFails e")
  case True
  then show ?thesis using assms by (simp add: shuffleDeck_def)
next
  case False
  have "mset (map Code (Shuffle (rnd e) (upcoming r))) = mset (map Code (upcoming r))"
    using mset_Shuffle [of "rnd e" "upcoming r"] by (metis mset_map)
  then show ?thesis
    using False assms by (simp add: shuffleDeck_def Let_def mset_Shuffle length_Shuffle)
qed

theorem shuffleDeck_permutes_witness:
  "twoCards ''deck-1'' = Some twoCardsRow
   \<and> (\<exists>r'. snd (shuffleDeck env0 twoCards (shuffleReq ''deck-1'')) ''deck-1'' = Some r'
          \<and> mset (upcoming r') = {#mkCard ''a'' ''s'', mkCard ''k'' ''s''#}
          \<and> length (upcoming r') = 2
          \<and> piged r' = piged twoCardsRow)"
proof -
  have row: "twoCards ''deck-1'' = Some twoCardsRow"
    by (simp add: twoCards_def)
  have req: "DeckID (shuffleReq ''deck-1'') = ''deck-1''"
    by (simp add: shuffleReq_def)
  from shuffleDeck_permutes [of twoCards "shuffleReq ''deck-1''" twoCardsRow env0]
  obtain r' where "snd (shuffleDeck env0 twoCards (shuffleReq ''deck-1'')) ''deck-1'' = Some r'"
    and "mset (upcoming r') = mset (upcoming twoCardsRow)"
    and "length (upcoming r') = length (upcoming twoCardsRow)"
    and "piged r' = piged twoCardsRow"
    unfolding req using row by blast
  then show ?thesis
    using row by (auto simp: twoCardsRow_def)
qed

subsection \<open>C6: generateCards\<close>

text \<open>
  Claim C6. For every pack count from 1 to 10 and every jokers flag, generateCards returns
  52 cards per pack, plus 2 per pack when jokers are enabled, pack by pack; each pack is
  the four suits in the order h, d, c, s with the thirteen ranks 2..10, j, q, k, a for each
  suit, followed, when jokers are enabled, by exactly two joker cards of empty suit and
  rank "joker". As a function of its two arguments it is deterministic. The ranks and the
  suits of a pack are written out; the code of every card is its rank followed by its
  suit, and its image is "/static/" followed by the code and ".svg".
\<close>

theorem generateCards_count_and_order:
  assumes "1 \<le> packCount" and "packCount \<le> 10"
  shows "generateCards packCount jokers = concat (replicate (nat packCount) (pack_spec jokers))
       \<and> int (length (generateCards packCount jokers))
           = 52 * packCount + (if jokers then 2 * packCount else 0)
       \<and> map Rank (pack_spec jokers) =
           concat (replicate 4 ([''2'', ''3'', ''4'', ''5'', ''6''] @ [''7'', ''8'', ''9'', ''10'']
                                @ [''j'', ''q'', ''k'', ''a'']))
           @ (if jokers then [''joker'', ''joker''] else [])
       \<and> map Suit (pack_spec jokers) =
           replicate 13 ''h'' @ replicate 13 ''d'' @ replicate 13 ''c'' @ replicate 13 ''s''
           @ (if jokers then [[], []] else [])
       \<and> (\<forall>c \<in> set (generateCards packCount jokers).
             Code c = Rank c @ Suit c \<and> Image c = ''/static/'' @ Code c @ ''.svg'')
       \<and> Suit joker = [] \<and> Rank joker = ''joker''"
proof (intro conjI)
  show "generateCards packCount jokers = concat (replicate (nat packCount) (pack_spec jokers))"
    by (rule generateCards_eq)
  show "int (length (generateCards packCount jokers))
          = 52 * packCount + (if jokers then 2 * packCount else 0)"
    using assms by (simp add: length_generateCards)
  show "map Rank (pack_spec jokers) =
           concat (replicate 4 ([''2'', ''3'', ''4'', ''5'', ''6''] @ [''7'', ''8'', ''9'', ''10'']
                                @ [''j'', ''q'', ''k'', ''a'']))
           @ (if jokers then [''joker'', ''joker''] else [])"
    by (rule pack_spec_ranks)
  show "map Suit (pack_spec jokers) =
           replicate 13 ''h'' @ replicate 13 ''d'' @ replicate 13 ''c'' @ replicate 13 ''s''
           @ (if jokers then [[], []] else [])"
    by (rule pack_spec_suits)
  show "\<forall>c \<in> set (generateCards packCount jokers).
          Code c = Rank c @ Suit c \<and> Image c = ''/static/'' @ Code c @ ''.svg''"
    using set_concat_replicate [of "nat packCount" "pack_spec jokers"] pack_spec_fields [of _ jokers]
    unfolding generateCards_eq by blast
  show "Suit joker = []" and "Rank joker = ''joker''"
    by (simp_all add: joker_def)
qed

theorem generateCards_count_and_order_witness:
  "(1::int) \<le> 2 \<and> (2::int) \<le> 10
   \<and> generateCards 2 True = generateCards 1 True @ generateCards 1 True
   \<and> length (generateCards 2 True) = 108
   \<and> map Code (generateCards 1 True) =
        [''2h'', ''3h'', ''4h'', ''5h'', ''6h'', ''7h'', ''8h'', ''9h'', ''10h'',
         ''jh'', ''qh'', ''kh'', ''ah'']
      @ [''2d'', ''3d'', ''4d'', ''5d'', ''6d'', ''7d'', ''8d'', ''9d'', ''10d'',
         ''jd'', ''qd'', ''kd'', ''ad'']
      @ [''2c'', ''3c'', ''4c'', ''5c'', ''6c'', ''7c'', ''8c'', ''9c'', ''10c'',
         ''jc'', ''qc'', ''kc'', ''ac'']
      @ [''2s'', ''3s'', ''4s'', ''5s'', ''6s'', ''7s'', ''8s'', ''9s'', ''10s'',
         ''js'', ''qs'', ''ks'', ''as'']
      @ [''joker'', ''joker'']
   \<and> drop 52 (generateCards 1 True) =
        [\<lparr>Code = ''joker'', Rank = ''joker'', Suit = [], Image = ''/static/joker.svg''\<rparr>,
         \<lparr>Code = ''joker'', Rank = ''joker'', Suit = [], Image = ''/static/joker.svg''\<rparr>]
   \<and> take 2 (generateCards 1 True) =
        [\<lparr>Code = ''2h'', Rank = ''2'', Suit = ''h'', Image = ''/static/2h.svg''\<rparr>,
         \<lparr>Code = ''3h'', Rank = ''3'', Suit = ''h'', Image = ''/static/3h.svg''\<rparr>]"
proof -
  have two: "(1::int) \<le> 2" "(2::int) \<le> 10" and one: "(1::int) \<le> 1" "(1::int) \<le> 10"
    by simp_all
  note t2 = generateCards_count_and_order [OF two, of True]
  note t1 = generateCards_count_and_order [OF one, of True]
  have g1: "generateCards 1 True = pack_spec True"
    using conjunct1 [OF t1] by simp
  have g2: "generateCards 2 True = generateCards 1 True @ generateCards 1 True"
    using conjunct1 [OF t2] by (simp add: g1 numeral_2_eq_2)
  have len: "length (generateCards 2 True) = 108"
    using conjunct1 [OF conjunct2 [OF t2]] by simp
  have pack: "pack_spec True =
      map (\<lambda>rank. mkCard rank ''h'') ranks @ map (\<lambda>rank. mkCard rank ''d'') ranks
      @ map (\<lambda>rank. mkCard rank ''c'') ranks @ map (\<lambda>rank. mkCard rank ''s'') ranks
      @ [joker, joker]"
    by (simp add: pack_spec_def suits_def)
  have codes: "map Code (generateCards 1 True) =
        [''2h'', ''3h'', ''4h'', ''5h'', ''6h'', ''7h'', ''8h'', ''9h'', ''10h'',
         ''jh'', ''qh'', ''kh'', ''ah'']
      @ [''2d'', ''3d'', ''4d'', ''5d'', ''6d'', ''7d'', ''8d'', ''9d'', ''10d'',
         ''jd'', ''qd'', ''kd'', ''ad'']
      @ [''2c'', ''3c'', ''4c'', ''5c'', ''6c'', ''7c'', ''8c'', ''9c'', ''10c'',
         ''jc'', ''qc'', ''kc'', ''ac'']
      @ [''2s'', ''3s'', ''4s'', ''5s'', ''6s'', ''7s'', ''8s'', ''9s'', ''10s'',
         ''js'', ''qs'', ''ks'', ''as'']
      @ [''joker'', ''joker'']"
    by (simp add: g1 pack ranks_def mkCard_def joker_def)
  have jokers: "drop 52 (generateCards 1 True) =
        [\<lparr>Code = ''joker'', Rank = ''joker'', Suit = [], Image = ''/static/joker.svg''\<rparr>,
         \<lparr>Code = ''joker'', Rank = ''joker'', Suit = [], Image = ''/static/joker.svg''\<rparr>]"
    by (simp add: g1 pack ranks_def joker_def)
  have first: "take 2 (generateCards 1 True) =
        [\<lparr>Code = ''2h'', Rank = ''2'', Suit = ''h'', Image = ''/static/2h.svg''\<rparr>,
         \<lparr>Code = ''3h'', Rank = ''3'', Suit = ''h'', Image = ''/static/3h.svg''\<rparr>]"
    by (simp add: g1 pack ranks_def mkCard_def numeral_2_eq_2)
  from two g2 len codes jokers first show ?thesis
    by (intro conjI)
qed

subsection \<open>C7: showDrawnCards and showUpcomingCards\<close>

text \<open>
  Claim C7. On an existing deck, a count that is not a non-negative integer, or that
  exceeds the length of the pile, fails with InvalidArgument ("Invalid count"); count 0
  returns the whole pile; otherwise showDrawnCards returns the last \<open>count\<close> entries of
  the drawn pile and showUpcomingCards the first \<open>count\<close> entries of the upcoming pile;
  neither changes the table.
\<close>

theorem show_cards:
  assumes "d deckID = Some r"
  shows "(Atoi countStr = None \<longrightarrow>
            showDrawnCards d deckID countStr = (Inl InvalidCount, d)
          \<and> showUpcomingCards d deckID countStr = (Inl InvalidCount, d))
       \<and> (\<forall>c. Atoi countStr = Some c \<longrightarrow>
            (c < 0 \<or> int (length (piged r)) < c \<longrightarrow>
               showDrawnCards d deckID countStr = (Inl InvalidCount, d))
          \<and> (c < 0 \<or> int (length (upcoming r)) < c \<longrightarrow>
               showUpcomingCards d deckID countStr = (Inl InvalidCount, d))
          \<and> (c = 0 \<longrightarrow>
               showDrawnCards d deckID countStr = (Inr (piged r), d)
             \<and> showUpcomingCards d deckID countStr = (Inr (upcoming r), d))
          \<and> (0 < c \<and> c \<le> int (length (piged r)) \<longrightarrow>
               showDrawnCards d deckID countStr
                 = (Inr (drop (length (piged r) - nat c) (piged r)), d)
             \<and> int (length (drop (length (piged r) - nat c) (piged r))) = c)
          \<and> (0 < c \<and> c \<le> int (length (upcoming r)) \<longrightarrow>
               showUpcomingCards d deckID countStr = (Inr (take (nat c) (upcoming r)), d)
             \<and> int (length (take (nat c) (upcoming r))) = c))
       \<and> snd (showDrawnCards d deckID countStr) = d
       \<and> snd (showUpcomingCards d deckID countStr) = d"
proof (intro conjI allI impI)
  show "snd (showDrawnCards d deckID countStr) = d"
    by (simp add: showDrawnCards_def Let_def split: option.splits)
  show "snd (showUpcomingCards d deckID countStr) = d"
    by (simp add: showUpcomingCards_def Let_def split: option.splits)
qed (use assms in \<open>auto simp: showDrawnCards_def showUpcomingCards_def Let_def\<close>)

theorem show_cards_witness:
  "showDrawnCards twoCards ''deck-1'' ''2'' =
     (Inr [\<lparr>DrawnCode = ''3h'', Time = ''2024-05-01T09:00:01Z''\<rparr>,
           \<lparr>DrawnCode = ''4h'', Time = ''2024-05-01T09:00:02Z''\<rparr>], twoCards)
   \<and> showUpcomingCards twoCards ''deck-1'' ''1'' = (Inr [mkCard ''a'' ''s''], twoCards)
   \<and> showDrawnCards twoCards ''deck-1'' ''0'' = (Inr (piged twoCardsRow), twoCards)
   \<and> showUpcomingCards twoCards ''deck-1'' ''0'' = (Inr (upcoming twoCardsRow), twoCards)
   \<and> showDrawnCards twoCards ''deck-1'' ''5'' = (Inl InvalidCount, twoCards)
   \<and> showUpcomingCards twoCards ''deck-1'' ''-3'' = (Inl InvalidCount, twoCards)
   \<and> showUpcomingCards twoCards ''deck-1'' ''abc'' = (Inl InvalidCount, twoCards)"
  using show_cards [of twoCards "''deck-1''" twoCardsRow "''2''"]
        show_cards [of twoCards "''deck-1''" twoCardsRow "''1''"]
        show_cards [of twoCards "''deck-1''" twoCardsRow "''0''"]
        show_cards [of twoCards "''deck-1''" twoCardsRow "''5''"]
        show_cards [of twoCards "''deck-1''" twoCardsRow "''-3''"]
        show_cards [of twoCards "''deck-1''" twoCardsRow "''abc''"]
  by (simp add: twoCards_def twoCardsRow_def Atoi_examples)

subsection \<open>C8: as many draws of one card as the deck has cards\<close>

text \<open>
  Claim C8. When N callers each draw one card from a deck of N cards, every card is drawn
  exactly once over all replies, and afterwards the remaining count is 0 and the drawn
  pile holds N entries.

  The draws reach drawCards one at a time (handleRequests, and the mutex inside
  drawCards), so N callers are a queue of N equal requests. For N = 2, on the table left
  by \<open>/deck/new/0\<close> and \<open>/deck/deck-1/add?cards=as,ks\<close>: the two replies carry "as" and
  "ks", the last with remaining 0, and the stored drawn pile holds no entry, where the
  claim has two.
\<close>

theorem serial_draws_leave_drawn_pile_empty:
  "handleRequests twoAdded [(env0, drawReq ''deck-1'' ''1''), (env0, drawReq ''deck-1'' ''1'')] =
     ([\<lparr>Deck = \<lparr>ID = ''deck-1'',
               Cards = [\<lparr>Code = ''as'', Rank = [], Suit = [], Image = []\<rparr>],
               Remaining = 1\<rparr>, Drawn = [], Error = None\<rparr>,
       \<lparr>Deck = \<lparr>ID = ''deck-1'',
               Cards = [\<lparr>Code = ''ks'', Rank = [], Suit = [], Image = []\<rparr>],
               Remaining = 0\<rparr>, Drawn = [], Error = None\<rparr>],
      emptyDB(''deck-1'' \<mapsto> \<lparr>cards = [], piged = [], upcoming = []\<rparr>))"
  by (simp add: twoAdded_eq drawCards_def drawReq_def Atoi_examples Let_def emptyDB_def env0_def)

subsection \<open>C9: the pack count of createDeck\<close>

text \<open>
  Claim C9. createDeck rejects only pack counts greater than 10: with a pack count of 0
  or less it succeeds and creates a deck of no cards, remaining 0; a first path segment
  that is not an integer is ignored and the deck has 1 pack. (In a run in which the
  insert is executed: the engine works and the identifier is new. \<open>p\<close> is the first path
  segment, \<open>ps\<close> the others.)
\<close>

theorem createDeck_pack_count:
  assumes "\<not> execFails e"
    and "d (newUUID e) = None"
    and "Split params CHR ''/'' = p # ps"
  shows "(fst (createDeck e d params) = Inl TooManyDecks \<longleftrightarrow> (\<exists>n. Atoi p = Some n \<and> 10 < n))
       \<and> (\<not> (\<exists>n. Atoi p = Some n \<and> 10 < n) \<longrightarrow> (\<exists>deck. fst (createDeck e d params) = Inr deck))
       \<and> (\<forall>n. Atoi p = Some n \<and> n \<le> 0 \<longrightarrow>
             createDeck e d params =
               (Inr \<lparr>ID = newUUID e, Cards = [], Remaining = 0\<rparr>,
                d(newUUID e \<mapsto> \<lparr>cards = [], piged = [], upcoming = []\<rparr>)))
       \<and> (Atoi p = None \<longrightarrow>
             createDeck e d params =
               (Inr \<lparr>ID = newUUID e,
                     Cards = generateCards 1 (ps \<noteq> [] \<and> hd ps = ''true''),
                     Remaining = int (length (generateCards 1 (ps \<noteq> [] \<and> hd ps = ''true'')))\<rparr>,
                d(newUUID e \<mapsto>
                   \<lparr>cards = generateCards 1 (ps \<noteq> [] \<and> hd ps = ''true''), piged = [],
                    upcoming = generateCards 1 (ps \<noteq> [] \<and> hd ps = ''true'')\<rparr>)))"
proof -
  have jk: "(case ps of [] \<Rightarrow> False | j # _ \<Rightarrow> j = ''true'') = (ps \<noteq> [] \<and> hd ps = ''true'')"
    by (cases ps) simp_all
  show ?thesis
    using assms
    by (auto simp: createDeck_def Let_def jk generateCards_nonpositive split: option.splits)
qed

theorem createDeck_pack_count_witness:
  "createDeck env0 emptyDB ''0/true'' =
     (Inr \<lparr>ID = ''deck-1'', Cards = [], Remaining = 0\<rparr>,
      emptyDB(''deck-1'' \<mapsto> \<lparr>cards = [], piged = [], upcoming = []\<rparr>))
   \<and> createDeck env0 emptyDB ''-3'' =
     (Inr \<lparr>ID = ''deck-1'', Cards = [], Remaining = 0\<rparr>,
      emptyDB(''deck-1'' \<mapsto> \<lparr>cards = [], piged = [], upcoming = []\<rparr>))
   \<and> fst (createDeck env0 emptyDB ''11'') = Inl TooManyDecks
   \<and> fst (createDeck env0 emptyDB ''abc/true'') =
        Inr \<lparr>ID = ''deck-1'', Cards = generateCards 1 True, Remaining = 54\<rparr>
   \<and> fst (createDeck env0 emptyDB []) =
        Inr \<lparr>ID = ''deck-1'', Cards = generateCards 1 False, Remaining = 52\<rparr>"
  using createDeck_pack_count [of env0 emptyDB "''0/true''" "''0''" "[''true'']"]
        createDeck_pack_count [of env0 emptyDB "''-3''" "''-3''" "[]"]
        createDeck_pack_count [of env0 emptyDB "''11''" "''11''" "[]"]
        createDeck_pack_count [of env0 emptyDB "''abc/true''" "''abc''" "[''true'']"]
        createDeck_pack_count [of env0 emptyDB "[]" "[]" "[]"]
  by (simp add: env0_def emptyDB_def Split_def Atoi_examples length_generateCards)

subsection \<open>C10: parseCards\<close>

text \<open>
  Claim C10. For every input string, parseCards produces exactly one card per
  comma-separated segment, empty segments included: the segments are the pieces of the
  input between its commas (joined with commas they give the input back, and none
  contains a comma), one more than the input has commas. Every parsed card has only its
  code populated. In particular the empty parameter gives one card whose code is the
  empty string, which addCards appends to the upcoming pile of an existing deck.
\<close>

theorem parseCards_one_card_per_segment:
  "length (parseCards s) = Suc (count_list s CHR '','')
   \<and> map Code (parseCards s) = Split s CHR '',''
   \<and> join CHR '','' (Split s CHR '','') = s
   \<and> (\<forall>seg \<in> set (Split s CHR '',''). CHR '','' \<notin> set seg)
   \<and> (\<forall>c \<in> set (parseCards s). Rank c = [] \<and> Suit c = [] \<and> Image c = [])
   \<and> parseCards [] = [\<lparr>Code = [], Rank = [], Suit = [], Image = []\<rparr>]
   \<and> (d deckID = Some r \<and> \<not> execFails e \<longrightarrow>
        addCards e d deckID [] =
          (Inr \<lparr>ID = deckID,
                Cards = cards r @ upcoming r @ [\<lparr>Code = [], Rank = [], Suit = [], Image = []\<rparr>],
                Remaining = int (length (upcoming r)) + 1\<rparr>,
           d(deckID \<mapsto>
              r\<lparr>upcoming := upcoming r @ [\<lparr>Code = [], Rank = [], Suit = [], Image = []\<rparr>]\<rparr>)))"
proof (intro conjI)
  show "length (parseCards s) = Suc (count_list s CHR '','')"
    by (simp add: parseCards_eq length_Split)
  show "map Code (parseCards s) = Split s CHR '',''"
    by (simp add: parseCards_eq comp_def)
  show "join CHR '','' (Split s CHR '','') = s"
    by (rule join_Split)
  show "\<forall>seg \<in> set (Split s CHR '',''). CHR '','' \<notin> set seg"
    using Split_no_sep by blast
  show "\<forall>c \<in> set (parseCards s). Rank c = [] \<and> Suit c = [] \<and> Image c = []"
    by (auto simp: parseCards_eq)
  show "parseCards [] = [\<lparr>Code = [], Rank = [], Suit = [], Image = []\<rparr>]"
    by (simp add: parseCards_eq Split_Nil)
  show "d deckID = Some r \<and> \<not> execFails e \<longrightarrow>
        addCards e d deckID [] =
          (Inr \<lparr>ID = deckID,
                Cards = cards r @ upcoming r @ [\<lparr>Code = [], Rank = [], Suit = [], Image = []\<rparr>],
                Remaining = int (length (upcoming r)) + 1\<rparr>,
           d(deckID \<mapsto>
              r\<lparr>upcoming := upcoming r @ [\<lparr>Code = [], Rank = [], Suit = [], Image = []\<rparr>]\<rparr>))"
    by (simp add: addCards_def parseCards_eq Split_Nil Let_def jsonCard_def jsonString_examples)
qed

theorem parseCards_one_card_per_segment_witness:
  "map Code (parseCards ''as,,kh'') = [''as'', [], ''kh'']
   \<and> length (parseCards ''as,,kh'') = 3
   \<and> twoCards ''deck-1'' = Some twoCardsRow \<and> \<not> execFails env0
   \<and> snd (addCards env0 twoCards ''deck-1'' []) ''deck-1'' =
       Some (twoCardsRow\<lparr>upcoming := [mkCard ''a'' ''s'', mkCard ''k'' ''s'',
                                       \<lparr>Code = [], Rank = [], Suit = [], Image = []\<rparr>]\<rparr>)"
  using parseCards_one_card_per_segment [of "''as,,kh''" twoCards "''deck-1''" twoCardsRow env0]
  by (simp add: Split_def twoCards_def twoCardsRow_def env0_def)

end
